theory Spec2Isabelle
  imports Main "HOL-Library.Sublist" "HOL-Library.Multiset" "HOL-Library.AList"
begin

section \<open>JavaScript values\<close>

text \<open>
  The logger of \<^verbatim>\<open>src/src/log.ts\<close> receives \<^verbatim>\<open>unknown[]\<close>: any JavaScript value. The
  model has one constructor per language type the code can tell apart with \<^verbatim>\<open>typeof\<close>,
  \<^verbatim>\<open>=== undefined\<close>, \<^verbatim>\<open>=== null\<close>, \<^verbatim>\<open>instanceof Error\<close> and \<^verbatim>\<open>in\<close>.

  \<^item> A number is an integer (the integer-valued doubles below \<open>10^21\<close> in magnitude, where
    the decimal text has no exponent); fractions, \<open>NaN\<close>, the infinities and \<open>-0\<close> are
    not modelled.
  \<^item> A string is a list of characters (bytes).
  \<^item> A symbol carries its description, a function its source text.
  \<^item> An array is the list of its elements (no holes, no extra properties).
  \<^item> An object \<open>JObj e own other\<close> carries: \<open>e\<close>, whether \<^verbatim>\<open>Error.prototype\<close> is on its
    prototype chain (\<^verbatim>\<open>instanceof Error\<close>); \<open>own\<close>, its own enumerable data properties in
    the order \<^verbatim>\<open>Object.keys\<close> lists them; \<open>other\<close>, the further properties a read finds
    (own but not enumerable, such as \<^verbatim>\<open>message\<close> and \<^verbatim>\<open>stack\<close> of an \<^verbatim>\<open>Error\<close>, or inherited,
    such as \<^verbatim>\<open>name\<close> of an \<^verbatim>\<open>Error\<close>).

  Not modelled: accessor properties, \<^verbatim>\<open>toJSON\<close> and overridden \<^verbatim>\<open>toString\<close> methods (a
  function is opaque text), symbol keys, the key \<^verbatim>\<open>__proto__\<close>, proxies, boxed primitives
  and cyclic object graphs (a value is a finite tree).
\<close>

datatype jsval =
    JUndefined
  | JNull
  | JBool bool
  | JNum int
  | JBigInt int
  | JStr string
  | JSymbol string
  | JFunction string
  | JArr "jsval list"
  | JObj bool "(string \<times> jsval) list" "(string \<times> jsval) list"

text \<open>What a \<^verbatim>\<open>throw\<close> carries: an \<^verbatim>\<open>Error\<close> with its message, or a \<^verbatim>\<open>TypeError\<close> of the
  language itself.\<close>

datatype exn = JSError string | JSTypeError

type_synonym props = "(string \<times> jsval) list"

fun typeof :: "jsval \<Rightarrow> string" where
  "typeof JUndefined = ''undefined''"
| "typeof JNull = ''object''"
| "typeof (JBool b) = ''boolean''"
| "typeof (JNum n) = ''number''"
| "typeof (JBigInt n) = ''bigint''"
| "typeof (JStr s) = ''string''"
| "typeof (JSymbol d) = ''symbol''"
| "typeof (JFunction src) = ''function''"
| "typeof (JArr xs) = ''object''"
| "typeof (JObj e own other) = ''object''"

fun instanceofError :: "jsval \<Rightarrow> bool" where
  "instanceofError (JObj e own other) = e"
| "instanceofError v = False"

text \<open>Truthiness, as \<^verbatim>\<open>||\<close> and \<^verbatim>\<open>if (msg)\<close> test it.\<close>

fun truthy :: "jsval \<Rightarrow> bool" where
  "truthy JUndefined = False"
| "truthy JNull = False"
| "truthy (JBool b) = b"
| "truthy (JNum n) = (n \<noteq> 0)"
| "truthy (JBigInt n) = (n \<noteq> 0)"
| "truthy (JStr s) = (s \<noteq> [])"
| "truthy v = True"

subsection \<open>Decimal text\<close>

definition digitChar :: "nat \<Rightarrow> char" where
  "digitChar n = ''0123456789'' ! (n mod 10)"

fun natToString :: "nat \<Rightarrow> string" where
  "natToString n = (if n < 10 then [digitChar n] else natToString (n div 10) @ [digitChar n])"

declare natToString.simps [simp del]

definition numberToString :: "int \<Rightarrow> string" where
  "numberToString i = (if i < 0 then CHR ''-'' # natToString (nat (- i)) else natToString (nat i))"

definition isDigit :: "char \<Rightarrow> bool" where
  "isDigit c = (c \<in> set ''0123456789'')"

definition stringToNat :: "string \<Rightarrow> nat" where
  "stringToNat s = foldl (\<lambda>a c. 10 * a + (of_char c - 48)) 0 s"

text \<open>An array index is the canonical decimal text of an integer below \<open>2^32 - 1\<close>; such
  keys are listed first, in ascending numeric order, by every enumeration of an object's
  own keys.\<close>

definition isArrayIndex :: "string \<Rightarrow> bool" where
  "isArrayIndex k =
     (k \<noteq> [] \<and> list_all isDigit k \<and> natToString (stringToNat k) = k \<and> stringToNat k < 4294967295)"

fun joinWith :: "string \<Rightarrow> string list \<Rightarrow> string" where
  "joinWith sep [] = []"
| "joinWith sep [x] = x"
| "joinWith sep (x # y # ys) = x @ sep @ joinWith sep (y # ys)"

subsection \<open>Properties\<close>

text \<open>The own enumerable string-keyed properties of a value, in enumeration order: what
  \<^verbatim>\<open>Object.assign\<close> copies and \<^verbatim>\<open>JSON.stringify\<close> writes.\<close>

fun ownEnumerable :: "jsval \<Rightarrow> props" where
  "ownEnumerable (JObj e own other) = own"
| "ownEnumerable (JArr xs) = zip (map natToString [0..<length xs]) xs"
| "ownEnumerable (JStr s) = zip (map natToString [0..<length s]) (map (\<lambda>c. JStr [c]) s)"
| "ownEnumerable v = []"

text \<open>Every property a read finds on an object or array; own properties shadow the
  others.\<close>

fun allProps :: "jsval \<Rightarrow> props" where
  "allProps (JObj e own other) = own @ other"
| "allProps (JArr xs) = zip (map natToString [0..<length xs]) xs @ [(''length'', JNum (int (length xs)))]"
| "allProps v = []"

text \<open>\<^verbatim>\<open>k in obj\<close>; the source guards it with \<^verbatim>\<open>typeof obj === 'object' && obj !== null\<close>.\<close>

definition hasProp :: "string \<Rightarrow> jsval \<Rightarrow> bool" where
  "hasProp k obj = (map_of (allProps obj) k \<noteq> None)"

text \<open>\<^verbatim>\<open>obj.k\<close>: \<^verbatim>\<open>undefined\<close> when the property is missing.\<close>

definition getProp :: "jsval \<Rightarrow> string \<Rightarrow> jsval" where
  "getProp obj k = (case map_of (allProps obj) k of None \<Rightarrow> JUndefined | Some v \<Rightarrow> v)"

text \<open>\<^verbatim>\<open>entry[k] = v\<close> on a plain object, kept in enumeration order: an existing key keeps
  its place, a new array-index key goes among the index keys in numeric order, any other
  new key goes last.\<close>

fun insertIndex :: "nat \<Rightarrow> string \<Rightarrow> jsval \<Rightarrow> props \<Rightarrow> props" where
  "insertIndex n k v [] = [(k, v)]"
| "insertIndex n k v (p # ps) =
     (if isArrayIndex (fst p) \<and> stringToNat (fst p) < n then p # insertIndex n k v ps
      else (k, v) # p # ps)"

definition setProp :: "props \<Rightarrow> string \<Rightarrow> jsval \<Rightarrow> props" where
  "setProp ps k v =
     (if map_of ps k \<noteq> None then AList.update k v ps
      else if isArrayIndex k then insertIndex (stringToNat k) k v ps
      else ps @ [(k, v)])"

text \<open>\<^verbatim>\<open>Object.assign(entry, obj)\<close>: each own enumerable property of \<open>obj\<close>, in order, is
  assigned to the entry.\<close>

definition objectAssign :: "props \<Rightarrow> jsval \<Rightarrow> props" where
  "objectAssign entry obj = foldl (\<lambda>e (k, v). setProp e k v) entry (ownEnumerable obj)"

subsection \<open>Conversion to text\<close>

text \<open>The abstract operation \<^verbatim>\<open>ToString\<close>. It raises a \<^verbatim>\<open>TypeError\<close> on a symbol. An array
  is converted by \<^verbatim>\<open>Array.prototype.join\<close> (\<^verbatim>\<open>undefined\<close> and \<^verbatim>\<open>null\<close> elements give the empty
  text), an \<^verbatim>\<open>Error\<close> instance by \<^verbatim>\<open>Error.prototype.toString\<close>, any other object by
  \<^verbatim>\<open>Object.prototype.toString\<close>.\<close>

function ToString :: "jsval \<Rightarrow> exn + string"
and joinTexts :: "jsval list \<Rightarrow> exn + string list"
and propText :: "string \<Rightarrow> string \<Rightarrow> props \<Rightarrow> exn + string" where
  "ToString JUndefined = Inr ''undefined''"
| "ToString JNull = Inr ''null''"
| "ToString (JBool b) = Inr (if b then ''true'' else ''false'')"
| "ToString (JNum n) = Inr (numberToString n)"
| "ToString (JBigInt n) = Inr (numberToString n)"
| "ToString (JStr s) = Inr s"
| "ToString (JSymbol d) = Inl JSTypeError"
| "ToString (JFunction src) = Inr src"
| "ToString (JArr xs) =
     (case joinTexts xs of Inl e \<Rightarrow> Inl e | Inr ts \<Rightarrow> Inr (joinWith '','' ts))"
| "ToString (JObj e own other) =
     (if e then
        (case propText ''name'' ''Error'' (own @ other) of
           Inl ex \<Rightarrow> Inl ex
         | Inr name \<Rightarrow>
             (case propText ''message'' [] (own @ other) of
                Inl ex \<Rightarrow> Inl ex
              | Inr msg \<Rightarrow>
                  Inr (if name = [] then msg else if msg = [] then name
                       else name @ '': '' @ msg)))
      else Inr ''[object Object]'')"
| "joinTexts [] = Inr []"
| "joinTexts (x # xs) =
     (case (if x = JUndefined \<or> x = JNull then Inr [] else ToString x) of
        Inl e \<Rightarrow> Inl e
      | Inr t \<Rightarrow> (case joinTexts xs of Inl e \<Rightarrow> Inl e | Inr ts \<Rightarrow> Inr (t # ts)))"
| "propText k dflt [] = Inr dflt"
| "propText k dflt ((k', v) # ps) =
     (if k' = k then (if v = JUndefined then Inr dflt else ToString v)
      else propText k dflt ps)"
  by pat_completeness auto
termination
  by (relation "measure (case_sum size (case_sum (size_list size)
        (\<lambda>(k, dflt, ps). size_list (size_prod (\<lambda>x. 0) size) ps)))") auto

text \<open>\<^verbatim>\<open>String(v)\<close>: a symbol gives its descriptive text, anything else goes through
  \<^verbatim>\<open>ToString\<close>.\<close>

definition String :: "jsval \<Rightarrow> exn + string" where
  "String v = (case v of JSymbol d \<Rightarrow> Inr (''Symbol('' @ d @ '')'') | _ \<Rightarrow> ToString v)"

text \<open>\<^verbatim>\<open>xs.join(sep)\<close>.\<close>

definition arrayJoin :: "string \<Rightarrow> jsval list \<Rightarrow> exn + string" where
  "arrayJoin sep xs = (case joinTexts xs of Inl e \<Rightarrow> Inl e | Inr ts \<Rightarrow> Inr (joinWith sep ts))"

text \<open>\<^verbatim>\<open>xs.map(f)\<close> for an \<open>f\<close> that may raise: the first raise ends the call.\<close>

fun mapE :: "('a \<Rightarrow> exn + 'b) \<Rightarrow> 'a list \<Rightarrow> exn + 'b list" where
  "mapE f [] = Inr []"
| "mapE f (x # xs) =
     (case f x of Inl e \<Rightarrow> Inl e
      | Inr y \<Rightarrow> (case mapE f xs of Inl e \<Rightarrow> Inl e | Inr ys \<Rightarrow> Inr (y # ys)))"

section \<open>JSON.stringify\<close>

text \<open>The JSON document a value serializes to. \<^verbatim>\<open>JSON.stringify\<close> first reduces a value to
  such a document (\<open>toJson\<close>: \<^verbatim>\<open>undefined\<close>, symbols and functions have none, are dropped
  from objects and become \<^verbatim>\<open>null\<close> in arrays; a BigInt raises a \<^verbatim>\<open>TypeError\<close>), then writes
  its compact text (\<open>jsonText\<close>). \<^verbatim>\<open>JSON.parse\<close> reads that text back to the document.\<close>

datatype json =
    JsonNull
  | JsonBool bool
  | JsonNum int
  | JsonStr string
  | JsonArr "json list"
  | JsonObj "(string \<times> json) list"

fun toJson :: "jsval \<Rightarrow> exn + json option"
and toJsonElems :: "jsval list \<Rightarrow> exn + json list"
and toJsonProps :: "props \<Rightarrow> exn + (string \<times> json) list" where
  "toJson JUndefined = Inr None"
| "toJson JNull = Inr (Some JsonNull)"
| "toJson (JBool b) = Inr (Some (JsonBool b))"
| "toJson (JNum n) = Inr (Some (JsonNum n))"
| "toJson (JBigInt n) = Inl JSTypeError"
| "toJson (JStr s) = Inr (Some (JsonStr s))"
| "toJson (JSymbol d) = Inr None"
| "toJson (JFunction src) = Inr None"
| "toJson (JArr xs) =
     (case toJsonElems xs of Inl e \<Rightarrow> Inl e | Inr js \<Rightarrow> Inr (Some (JsonArr js)))"
| "toJson (JObj e own other) =
     (case toJsonProps own of Inl ex \<Rightarrow> Inl ex | Inr ps \<Rightarrow> Inr (Some (JsonObj ps)))"
| "toJsonElems [] = Inr []"
| "toJsonElems (x # xs) =
     (case toJson x of
        Inl e \<Rightarrow> Inl e
      | Inr j \<Rightarrow>
          (case toJsonElems xs of
             Inl e \<Rightarrow> Inl e
           | Inr js \<Rightarrow> Inr ((case j of None \<Rightarrow> JsonNull | Some j' \<Rightarrow> j') # js)))"
| "toJsonProps [] = Inr []"
| "toJsonProps ((k, v) # ps) =
     (case toJson v of
        Inl e \<Rightarrow> Inl e
      | Inr j \<Rightarrow>
          (case toJsonProps ps of
             Inl e \<Rightarrow> Inl e
           | Inr js \<Rightarrow> Inr ((case j of None \<Rightarrow> [] | Some j' \<Rightarrow> [(k, j')]) @ js)))"

definition hexChar :: "nat \<Rightarrow> char" where
  "hexChar n = ''0123456789abcdef'' ! (n mod 16)"

definition escapeChar :: "char \<Rightarrow> string" where
  "escapeChar c =
     (if c = CHR 0x22 then [CHR 0x5C, CHR 0x22]
      else if c = CHR 0x5C then [CHR 0x5C, CHR 0x5C]
      else if c = CHR 0x08 then [CHR 0x5C, CHR ''b'']
      else if c = CHR 0x09 then [CHR 0x5C, CHR ''t'']
      else if c = CHR 0x0A then [CHR 0x5C, CHR ''n'']
      else if c = CHR 0x0C then [CHR 0x5C, CHR ''f'']
      else if c = CHR 0x0D then [CHR 0x5C, CHR ''r'']
      else if (of_char c :: nat) < 32
        then [CHR 0x5C, CHR ''u'', CHR ''0'', CHR ''0'', hexChar (of_char c div 16), hexChar (of_char c)]
      else [c])"

definition quoteJSON :: "string \<Rightarrow> string" where
  "quoteJSON s = CHR 0x22 # concat (map escapeChar s) @ [CHR 0x22]"

fun jsonText :: "json \<Rightarrow> string" where
  "jsonText JsonNull = ''null''"
| "jsonText (JsonBool b) = (if b then ''true'' else ''false'')"
| "jsonText (JsonNum n) = numberToString n"
| "jsonText (JsonStr s) = quoteJSON s"
| "jsonText (JsonArr xs) = ''['' @ joinWith '','' (map jsonText xs) @ '']''"
| "jsonText (JsonObj ps) =
     ''{'' @ joinWith '','' (map (\<lambda>(k, v). quoteJSON k @ '':'' @ jsonText v) ps) @ ''}''"

text \<open>\<^verbatim>\<open>JSON.stringify(v)\<close>: \<open>Inr None\<close> is the result \<^verbatim>\<open>undefined\<close>.\<close>

definition JSON_stringify :: "jsval \<Rightarrow> exn + string option" where
  "JSON_stringify v = (case toJson v of Inl e \<Rightarrow> Inl e | Inr j \<Rightarrow> Inr (map_option jsonText j))"

section \<open>Levels and the logger\<close>

definition LogLevels :: "string list" where
  "LogLevels = [''error'', ''warn'', ''info'', ''debug'', ''trace'']"

definition LEVELS :: "(string \<times> nat) list" where
  "LEVELS = [(''error'', 0), (''warn'', 1), (''info'', 2), (''debug'', 3), (''trace'', 4)]"

text \<open>\<^verbatim>\<open>isLogLevel\<close>; \<open>None\<close> is \<^verbatim>\<open>undefined\<close>, the absent argument.\<close>

definition isLogLevel :: "string option \<Rightarrow> bool" where
  "isLogLevel level = (case level of None \<Rightarrow> False | Some s \<Rightarrow> map_of LEVELS s \<noteq> None)"

text \<open>\<^verbatim>\<open>a > b\<close> on table lookups: a comparison with \<^verbatim>\<open>undefined\<close> is false.\<close>

definition greater :: "nat option \<Rightarrow> nat option \<Rightarrow> bool" where
  "greater a b = (case (a, b) of (Some x, Some y) \<Rightarrow> y < x | _ \<Rightarrow> False)"

record StandardLogger =
  logLevel :: string

text \<open>The constructor: \<^verbatim>\<open>initialLogLevel && isLogLevel(initialLogLevel)\<close>; the empty string
  is falsy.\<close>

definition constructor :: "string option \<Rightarrow> StandardLogger" where
  "constructor initialLogLevel =
     (case initialLogLevel of
        None \<Rightarrow> \<lparr>logLevel = ''warn''\<rparr>
      | Some s \<Rightarrow>
          (if s \<noteq> [] \<and> isLogLevel initialLogLevel then \<lparr>logLevel = s\<rparr>
           else \<lparr>logLevel = ''warn''\<rparr>))"

text \<open>\<^verbatim>\<open>setLogLevel\<close> returns what it throws, if anything, and the logger after the call.\<close>

definition setLogLevel :: "StandardLogger \<Rightarrow> string \<Rightarrow> exn option \<times> StandardLogger" where
  "setLogLevel this level =
     (if \<not> isLogLevel (Some level) then (Some (JSError (''Invalid log level: '' @ level)), this)
      else (None, this\<lparr>logLevel := level\<rparr>))"

section \<open>The clock and the console\<close>

text \<open>The instant \<^verbatim>\<open>new Date()\<close> reads, as its UTC calendar fields (years from 0 on).\<close>

record jsDate =
  year :: nat
  month :: nat
  day :: nat
  hours :: nat
  minutes :: nat
  seconds :: nat
  milliseconds :: nat

text \<open>The last \<open>w\<close> decimal digits of \<open>n\<close>, zero-padded.\<close>

fun padDigits :: "nat \<Rightarrow> nat \<Rightarrow> string" where
  "padDigits 0 n = []"
| "padDigits (Suc w) n = padDigits w (n div 10) @ [digitChar n]"

text \<open>\<^verbatim>\<open>toISOString\<close>: \<^verbatim>\<open>YYYY-MM-DDTHH:mm:ss.sssZ\<close>, the year with a sign and six digits
  beyond 9999.\<close>

definition toISOString :: "jsDate \<Rightarrow> string" where
  "toISOString d =
     (if year d \<le> 9999 then padDigits 4 (year d) else CHR ''+'' # padDigits 6 (year d))
     @ ''-'' @ padDigits 2 (month d) @ ''-'' @ padDigits 2 (day d)
     @ ''T'' @ padDigits 2 (hours d) @ '':'' @ padDigits 2 (minutes d)
     @ '':'' @ padDigits 2 (seconds d) @ ''.'' @ padDigits 3 (milliseconds d) @ ''Z''"

text \<open>The console: the lines written so far, each with the method that wrote it.\<close>

datatype stream = ConsoleError | ConsoleWarn | ConsoleInfo | ConsoleLog

type_synonym console = "(stream \<times> string) list"

text \<open>The \<^verbatim>\<open>switch (level)\<close> at the end of \<^verbatim>\<open>logAt\<close>.\<close>

definition consoleMethod :: "string \<Rightarrow> stream" where
  "consoleMethod level =
     (if level = ''error'' then ConsoleError
      else if level = ''warn'' then ConsoleWarn
      else if level = ''info'' then ConsoleInfo
      else ConsoleLog)"

section \<open>serializeArgs, isError, mapError\<close>

text \<open>The callback of \<^verbatim>\<open>args.map\<close> in \<^verbatim>\<open>serializeArgs\<close>; it returns a string, or whatever
  \<^verbatim>\<open>a.stack || a.message\<close> and \<^verbatim>\<open>JSON.stringify(a)\<close> give.\<close>

definition serializeArg :: "jsval \<Rightarrow> exn + jsval" where
  "serializeArg a =
     (if typeof a = ''string'' then Inr a
      else if instanceofError a then
        Inr (if truthy (getProp a ''stack'') then getProp a ''stack'' else getProp a ''message'')
      else if a = JUndefined then Inr (JStr ''undefined'')
      else (case JSON_stringify a of
              Inl ex \<Rightarrow> Inl ex
            | Inr None \<Rightarrow> Inr JUndefined
            | Inr (Some s) \<Rightarrow> Inr (JStr s)))"

definition serializeArgs :: "jsval list \<Rightarrow> exn + string" where
  "serializeArgs args =
     (case mapE serializeArg args of Inl ex \<Rightarrow> Inl ex | Inr ts \<Rightarrow> arrayJoin '' '' ts)"

definition isError :: "jsval \<Rightarrow> bool" where
  "isError obj =
     (instanceofError obj \<or>
      (typeof obj = ''object'' \<and> obj \<noteq> JNull \<and> hasProp ''message'' obj \<and> hasProp ''name'' obj))"

text \<open>\<^verbatim>\<open>mapError\<close>. Destructuring \<^verbatim>\<open>undefined\<close> or \<^verbatim>\<open>null\<close> raises; \<^verbatim>\<open>String(message ?? '')\<close>
  raises when the conversion of the message does.\<close>

definition mapError :: "jsval \<Rightarrow> exn + jsval" where
  "mapError e =
     (if e = JUndefined \<or> e = JNull then Inl JSTypeError
      else
        (let name = getProp e ''name'';
             message = getProp e ''message'';
             stack = getProp e ''stack'';
             code = getProp e ''code''
         in case (if typeof message = ''string'' then Inr message
                  else (case String (if message = JUndefined \<or> message = JNull then JStr []
                                     else message) of
                          Inl ex \<Rightarrow> Inl ex
                        | Inr s \<Rightarrow> Inr (JStr s))) of
              Inl ex \<Rightarrow> Inl ex
            | Inr m \<Rightarrow>
                Inr (JObj False
                      ([(''name'', if typeof name = ''string'' then name else JStr ''Error''),
                        (''message'', m),
                        (''stack'', if typeof stack = ''string'' then stack else JUndefined)]
                       @ (if code \<noteq> JUndefined then [(''code'', code)] else []))
                      [])))"

section \<open>logAt\<close>

text \<open>\<^verbatim>\<open>logAt\<close> of \<^verbatim>\<open>src/src/log.ts\<close>, in the steps of its body. Lines 110 to 113: the base
  entry.\<close>

definition baseEntry :: "string \<Rightarrow> jsDate \<Rightarrow> props" where
  "baseEntry level now = [(''timestamp'', JStr (toISOString now)), (''level'', JStr level)]"

text \<open>Lines 116 to 118: the three filters.\<close>

definition objectArgsOf :: "jsval list \<Rightarrow> jsval list" where
  "objectArgsOf args = filter (\<lambda>a. typeof a = ''object'' \<and> a \<noteq> JNull \<and> \<not> isError a) args"

definition messageArgsOf :: "jsval list \<Rightarrow> jsval list" where
  "messageArgsOf args = filter (\<lambda>a. typeof a \<noteq> ''object'' \<or> a = JNull) args"

definition errorArgsOf :: "jsval list \<Rightarrow> jsval list" where
  "errorArgsOf args = filter isError args"

text \<open>Lines 121 to 123: the merge loop.\<close>

definition mergeObjects :: "props \<Rightarrow> jsval list \<Rightarrow> props" where
  "mergeObjects entry objectArgs = foldl objectAssign entry objectArgs"

text \<open>Lines 126 to 128: \<^verbatim>\<open>if (msg) entry.message = msg\<close>.\<close>

definition setMessage :: "props \<Rightarrow> string \<Rightarrow> props" where
  "setMessage entry msg = (if msg \<noteq> [] then setProp entry ''message'' (JStr msg) else entry)"

text \<open>Lines 130 to 136: the error fields.\<close>

definition attachErrors :: "props \<Rightarrow> jsval list \<Rightarrow> exn + props" where
  "attachErrors entry errorArgs =
     (case errorArgs of
        [] \<Rightarrow> Inr entry
      | e0 # rest \<Rightarrow>
          (case mapError e0 of
             Inl ex \<Rightarrow> Inl ex
           | Inr m0 \<Rightarrow>
               (let entry1 = setProp entry ''error'' m0;
                    entry2 = setProp entry1 ''error_count'' (JNum (int (length errorArgs)))
                in if 1 < length errorArgs then
                     (case mapE mapError errorArgs of
                        Inl ex \<Rightarrow> Inl ex
                      | Inr ms \<Rightarrow> Inr (setProp entry2 ''errors'' (JArr ms)))
                   else Inr entry2)))"

text \<open>The entry as it stands before line 138.\<close>

definition buildEntry :: "string \<Rightarrow> jsval list \<Rightarrow> jsDate \<Rightarrow> exn + props" where
  "buildEntry level args now =
     (let entry = mergeObjects (baseEntry level now) (objectArgsOf args)
      in case serializeArgs (messageArgsOf args) of
           Inl ex \<Rightarrow> Inl ex
         | Inr msg \<Rightarrow> attachErrors (setMessage entry msg) (errorArgsOf args))"

text \<open>Line 138 on: the entry is serialized and written. The result is what the call
  throws, if anything, and the console after it.\<close>

definition emit :: "string \<Rightarrow> props \<Rightarrow> console \<Rightarrow> exn option \<times> console" where
  "emit level entry console =
     (case JSON_stringify (JObj False entry []) of
        Inl ex \<Rightarrow> (Some ex, console)
      | Inr line \<Rightarrow>
          (None, console @ [(consoleMethod level,
                             (case line of None \<Rightarrow> ''undefined'' | Some s \<Rightarrow> s))]))"

definition logAt ::
  "string \<Rightarrow> string \<Rightarrow> jsval list \<Rightarrow> jsDate \<Rightarrow> console \<Rightarrow> exn option \<times> console" where
  "logAt currentLevel level args now console =
     (if greater (map_of LEVELS level) (map_of LEVELS currentLevel) then (None, console)
      else (case buildEntry level args now of
              Inl ex \<Rightarrow> (Some ex, console)
            | Inr entry \<Rightarrow> emit level entry console))"


definition warn :: "StandardLogger \<Rightarrow> jsval list \<Rightarrow> jsDate \<Rightarrow> console \<Rightarrow> exn option \<times> console" where
  "warn this args now console = logAt (logLevel this) ''warn'' args now console"

definition info :: "StandardLogger \<Rightarrow> jsval list \<Rightarrow> jsDate \<Rightarrow> console \<Rightarrow> exn option \<times> console" where
  "info this args now console = logAt (logLevel this) ''info'' args now console"

definition debug :: "StandardLogger \<Rightarrow> jsval list \<Rightarrow> jsDate \<Rightarrow> console \<Rightarrow> exn option \<times> console" where
  "debug this args now console = logAt (logLevel this) ''debug'' args now console"

definition trace :: "StandardLogger \<Rightarrow> jsval list \<Rightarrow> jsDate \<Rightarrow> console \<Rightarrow> exn option \<times> console" where
  "trace this args now console = logAt (logLevel this) ''trace'' args now console"

section \<open>The earlier logAt\<close>

text \<open>\<^verbatim>\<open>src/unnamed/part_001\<close> is the same file before \<^verbatim>\<open>mapError\<close>: its \<^verbatim>\<open>logAt\<close> differs in
  lines 112 to 118 only, where every error argument is copied to
  \<^verbatim>\<open>{name: e.name, message: e.message, stack: e.stack}\<close> as it is.\<close>

definition copyError :: "jsval \<Rightarrow> jsval" where
  "copyError e =
     JObj False [(''name'', getProp e ''name''), (''message'', getProp e ''message''),
                 (''stack'', getProp e ''stack'')] []"

definition attachErrors_part_001 :: "props \<Rightarrow> jsval list \<Rightarrow> props" where
  "attachErrors_part_001 entry errorArgs =
     (if 0 < length errorArgs then setProp entry ''errors'' (JArr (map copyError errorArgs))
      else entry)"

definition buildEntry_part_001 :: "string \<Rightarrow> jsval list \<Rightarrow> jsDate \<Rightarrow> exn + props" where
  "buildEntry_part_001 level args now =
     (let entry = mergeObjects (baseEntry level now) (objectArgsOf args)
      in case serializeArgs (messageArgsOf args) of
           Inl ex \<Rightarrow> Inl ex
         | Inr msg \<Rightarrow> Inr (attachErrors_part_001 (setMessage entry msg) (errorArgsOf args)))"

definition logAt_part_001 ::
  "string \<Rightarrow> string \<Rightarrow> jsval list \<Rightarrow> jsDate \<Rightarrow> console \<Rightarrow> exn option \<times> console" where
  "logAt_part_001 currentLevel level args now console =
     (if greater (map_of LEVELS level) (map_of LEVELS currentLevel) then (None, console)
      else (case buildEntry_part_001 level args now of
              Inl ex \<Rightarrow> (Some ex, console)
            | Inr entry \<Rightarrow> emit level entry console))"

section \<open>Notions the properties are stated with\<close>

text \<open>The fields a list of context objects contributes, as a map: each object laid over
  the ones before it (\<open>++\<close> prefers its right argument). Within one object the last
  assignment to a key stands.\<close>

definition contextFields :: "jsval list \<Rightarrow> (string \<rightharpoonup> jsval)" where
  "contextFields objs = foldl (\<lambda>m obj. m ++ map_of (rev (ownEnumerable obj))) Map.empty objs"


text \<open>The classification in the words of the specification: an argument is error-like when
  it is an error instance, or a non-null object with both a \<^verbatim>\<open>name\<close> and a \<^verbatim>\<open>message\<close>; any
  other non-null object or array is a context object; everything else is a message
  fragment.\<close>

datatype argClass = ErrorLike | ContextObject | MessageFragment

fun isObject :: "jsval \<Rightarrow> bool" where
  "isObject (JArr xs) = True"
| "isObject (JObj e own other) = True"
| "isObject v = False"

definition spec_classify :: "jsval \<Rightarrow> argClass" where
  "spec_classify a =
     (if instanceofError a \<or> (isObject a \<and> hasProp ''name'' a \<and> hasProp ''message'' a)
      then ErrorLike
      else if isObject a then ContextObject
      else MessageFragment)"

text \<open>What the message step and the error step add to the entry, as maps: the message
  field for a rendered text \<open>msg\<close>, and the error fields of \<^verbatim>\<open>src/src/log.ts\<close> for the list
  \<open>ms\<close> of mapped errors.\<close>

definition messageField :: "string \<Rightarrow> (string \<rightharpoonup> jsval)" where
  "messageField msg = (if msg \<noteq> [] then [''message'' \<mapsto> JStr msg] else Map.empty)"

definition errorFields :: "jsval list \<Rightarrow> (string \<rightharpoonup> jsval)" where
  "errorFields ms =
     (case ms of
        [] \<Rightarrow> Map.empty
      | m0 # rest \<Rightarrow>
          [''error'' \<mapsto> m0, ''error_count'' \<mapsto> JNum (int (length ms))]
          ++ (if 1 < length ms then [''errors'' \<mapsto> JArr ms] else Map.empty))"

text \<open>The message in the words of the specification: a string passes through unchanged,
  \<^verbatim>\<open>undefined\<close> gives the text \<^verbatim>\<open>undefined\<close>, everything else is JSON-encoded (a function or a
  symbol has no JSON text and gives the empty one; where the encoding raises, so does the
  rendering), and the texts are joined by a single space.\<close>

definition spec_fragmentText :: "jsval \<Rightarrow> exn + string" where
  "spec_fragmentText a =
     (case a of
        JStr s \<Rightarrow> Inr s
      | JUndefined \<Rightarrow> Inr ''undefined''
      | _ \<Rightarrow> (case JSON_stringify a of
                Inl ex \<Rightarrow> Inl ex
              | Inr None \<Rightarrow> Inr []
              | Inr (Some t) \<Rightarrow> Inr t))"

definition spec_message :: "jsval list \<Rightarrow> exn + string" where
  "spec_message frags =
     (case mapE spec_fragmentText frags of Inl ex \<Rightarrow> Inl ex | Inr ts \<Rightarrow> Inr (joinWith '' '' ts))"





section \<open>Properties of the helpers\<close>

lemma LEVELS_keys: "(map_of LEVELS s \<noteq> None) = (s \<in> set LogLevels)"
  by (simp add: LEVELS_def LogLevels_def)

lemma map_of_insertIndex:
  "map_of ps k = None \<Longrightarrow> map_of (insertIndex n k v ps) = (map_of ps)(k \<mapsto> v)"
  by (induction ps) (auto simp: fun_eq_iff split: if_splits)

lemma map_of_setProp: "map_of (setProp ps k v) = (map_of ps)(k \<mapsto> v)"
  by (auto simp: setProp_def update_conv' map_of_insertIndex map_add_def fun_eq_iff
      split: option.splits)

lemma map_of_assignAll:
  "map_of (foldl (\<lambda>e (k, v). setProp e k v) entry kvs) = map_of entry ++ map_of (rev kvs)"
proof (induction kvs arbitrary: entry)
  case Nil
  show ?case by simp
next
  case (Cons p kvs)
  obtain k v where p: "p = (k, v)" by (cases p)
  show ?case
    by (simp add: Cons.IH p map_of_setProp map_add_def fun_eq_iff split: option.splits)
qed

lemma map_of_objectAssign:
  "map_of (objectAssign entry obj) = map_of entry ++ map_of (rev (ownEnumerable obj))"
  by (simp add: objectAssign_def map_of_assignAll)

lemma contextFields_snoc:
  "contextFields (objs @ [obj]) = contextFields objs ++ map_of (rev (ownEnumerable obj))"
  by (simp add: contextFields_def)

lemma map_of_mergeObjects:
  "map_of (mergeObjects entry objs) = map_of entry ++ contextFields objs"
proof (induction objs rule: rev_induct)
  case Nil
  show ?case by (simp add: mergeObjects_def contextFields_def)
next
  case (snoc obj objs)
  have "mergeObjects entry (objs @ [obj]) = objectAssign (mergeObjects entry objs) obj"
    by (simp add: mergeObjects_def)
  then show ?case
    by (simp add: snoc.IH map_of_objectAssign contextFields_snoc)
qed

subsection \<open>Values on which nothing raises\<close>





















lemma mapE_length: "mapE f xs = Inr ys \<Longrightarrow> length ys = length xs"
  by (induction xs arbitrary: ys) (auto split: sum.splits)







subsection \<open>The three filters\<close>

lemma typeof_object: "(typeof a = ''object'' \<and> a \<noteq> JNull) = isObject a"
  by (cases a) simp_all

lemma isError_classify: "isError a = (spec_classify a = ErrorLike)"
  using typeof_object [of a] by (auto simp: isError_def spec_classify_def)

lemma objectArg_classify:
  "(typeof a = ''object'' \<and> a \<noteq> JNull \<and> \<not> isError a) = (spec_classify a = ContextObject)"
  using typeof_object [of a] by (cases a) (auto simp: isError_def spec_classify_def)

lemma messageArg_classify:
  "(typeof a \<noteq> ''object'' \<or> a = JNull) = (spec_classify a = MessageFragment)"
  using typeof_object [of a] by (cases a) (auto simp: spec_classify_def)

lemma mset_three_filters:
  "mset (filter (\<lambda>a. f a = ErrorLike) xs) + mset (filter (\<lambda>a. f a = ContextObject) xs)
   + mset (filter (\<lambda>a. f a = MessageFragment) xs) = mset xs"
proof (induction xs)
  case Nil
  show ?case by simp
next
  case (Cons x xs)
  then show ?case by (cases "f x") simp_all
qed

subsection \<open>The entry as a map\<close>

lemma map_of_setMessage: "map_of (setMessage entry msg) = map_of entry ++ messageField msg"
  by (simp add: setMessage_def messageField_def map_of_setProp)

lemma mapE_Cons_Inr:
  "mapE f (x # xs) = Inr ys \<Longrightarrow> \<exists>y ys'. f x = Inr y \<and> mapE f xs = Inr ys' \<and> ys = y # ys'"
  by (auto split: sum.splits)

lemma mapE_single: "f x = Inr y \<Longrightarrow> mapE f [x] = Inr [y]"
  by simp

lemma attachErrors_raises:
  "(attachErrors entry errs = Inl ex) = (mapE mapError errs = Inl ex)"
proof (cases errs)
  case Nil
  then show ?thesis by (simp add: attachErrors_def)
next
  case (Cons e0 rest)
  show ?thesis
  proof (cases "mapError e0")
    case (Inl ex0)
    with Cons show ?thesis by (simp add: attachErrors_def)
  next
    case (Inr m0)
    with Cons show ?thesis
      by (cases rest) (auto simp: attachErrors_def Let_def split: sum.splits)
  qed
qed

lemma attachErrors_returns:
  assumes "attachErrors entry errs = Inr entry'"
  shows "\<exists>ms. mapE mapError errs = Inr ms \<and> map_of entry' = map_of entry ++ errorFields ms"
proof (cases errs)
  case Nil
  with assms show ?thesis by (simp add: attachErrors_def errorFields_def)
next
  case (Cons e0 rest)
  with assms obtain m0 where m0: "mapError e0 = Inr m0"
    by (cases "mapError e0") (simp_all add: attachErrors_def)
  show ?thesis
  proof (cases rest)
    case Nil
    with assms Cons m0 show ?thesis
      by (auto simp: attachErrors_def Let_def errorFields_def map_of_setProp map_add_def
          fun_eq_iff)
  next
    case (Cons e1 rest')
    with assms \<open>errs = e0 # rest\<close> m0 obtain ms where
      ms: "mapE mapError errs = Inr ms"
      and e': "entry' = setProp (setProp (setProp entry ''error'' m0) ''error_count''
                 (JNum (int (length errs)))) ''errors'' (JArr ms)"
      by (cases "mapE mapError errs") (simp_all add: attachErrors_def Let_def)
    from ms \<open>errs = e0 # rest\<close> m0 obtain ms' where ms': "ms = m0 # ms'"
      by (auto split: sum.splits)
    have len: "length ms = length errs"
      using ms by (rule mapE_length)
    have "1 < length ms"
      using len Cons \<open>errs = e0 # rest\<close> by simp
    with ms e' ms' len show ?thesis
      by (auto simp: errorFields_def map_of_setProp map_add_def fun_eq_iff)
  qed
qed


lemma buildEntry_raises:
  "(buildEntry level args now = Inl ex) =
     (serializeArgs (messageArgsOf args) = Inl ex
      \<or> (\<exists>msg. serializeArgs (messageArgsOf args) = Inr msg)
        \<and> mapE mapError (errorArgsOf args) = Inl ex)"
  by (cases "serializeArgs (messageArgsOf args)") (simp_all add: buildEntry_def attachErrors_raises)

lemma buildEntry_returns:
  assumes "buildEntry level args now = Inr entry"
  shows "\<exists>msg ms. serializeArgs (messageArgsOf args) = Inr msg
           \<and> mapE mapError (errorArgsOf args) = Inr ms
           \<and> map_of entry = map_of (baseEntry level now) ++ contextFields (objectArgsOf args)
                              ++ messageField msg ++ errorFields ms"
proof -
  from assms obtain msg where msg: "serializeArgs (messageArgsOf args) = Inr msg"
    and att: "attachErrors (setMessage (mergeObjects (baseEntry level now) (objectArgsOf args)) msg)
                (errorArgsOf args) = Inr entry"
    by (cases "serializeArgs (messageArgsOf args)") (simp_all add: buildEntry_def)
  from attachErrors_returns [OF att] obtain ms where
    "mapE mapError (errorArgsOf args) = Inr ms"
    "map_of entry = map_of (setMessage (mergeObjects (baseEntry level now) (objectArgsOf args)) msg)
                    ++ errorFields ms"
    by blast
  with msg show ?thesis
    by (simp add: map_of_setMessage map_of_mergeObjects)
qed


subsection \<open>Arguments without the message fragments\<close>




lemma serializeArgs_Nil: "serializeArgs [] = Inr []"
  by (simp add: serializeArgs_def arrayJoin_def)

subsection \<open>Evaluating the model on a call\<close>

lemma padDigits_numeral:
  "padDigits (numeral w) n = padDigits (pred_numeral w) (n div 10) @ [digitChar n]"
  by (subst numeral_eq_Suc) simp

lemmas logger_defs =
  buildEntry_def buildEntry_part_001_def baseEntry_def toISOString_def padDigits_numeral
  digitChar_def objectArgsOf_def messageArgsOf_def errorArgsOf_def isError_def hasProp_def
  getProp_def mergeObjects_def objectAssign_def setProp_def isArrayIndex_def isDigit_def
  stringToNat_def serializeArgs_def serializeArg_def JSON_stringify_def numberToString_def
  natToString.simps arrayJoin_def setMessage_def attachErrors_def attachErrors_part_001_def
  copyError_def mapError_def String_def

lemma buildEntry_example:
  "buildEntry ''info''
     [JStr ''x'', JObj False [(''a'', JNum 1), (''b'', JNum 2)] [], JNum 7,
      JObj False [(''b'', JNum 3)] []]
     \<lparr>year = 2023, month = 10, day = 2, hours = 12, minutes = 0, seconds = 0, milliseconds = 0\<rparr>
   = Inr [(''timestamp'', JStr ''2023-10-02T12:00:00.000Z''), (''level'', JStr ''info''),
          (''a'', JNum 1), (''b'', JNum 3), (''message'', JStr ''x 7'')]"
  by (simp add: logger_defs)

subsection \<open>Rendering the message fragments\<close>

lemma serializeArg_fragment:
  assumes "spec_classify a = MessageFragment"
  shows "(case serializeArg a of
            Inl ex \<Rightarrow> Inl ex
          | Inr r \<Rightarrow> (if r = JUndefined \<or> r = JNull then Inr [] else ToString r))
         = spec_fragmentText a"
proof (cases a)
  case (JArr xs)
  with assms show ?thesis by (simp add: spec_classify_def split: if_splits)
next
  case (JObj e own other)
  with assms show ?thesis by (simp add: spec_classify_def split: if_splits)
qed (simp_all add: serializeArg_def spec_fragmentText_def JSON_stringify_def)

lemma serializeArg_fragment_Inl:
  "spec_classify a = MessageFragment \<Longrightarrow> serializeArg a = Inl ex \<Longrightarrow> spec_fragmentText a = Inl ex"
  using serializeArg_fragment [of a] by simp

lemma serializeArg_fragment_Inr:
  "spec_classify a = MessageFragment \<Longrightarrow> serializeArg a = Inr r \<Longrightarrow>
   (if r = JUndefined \<or> r = JNull then Inr [] else ToString r) = spec_fragmentText a"
  using serializeArg_fragment [of a] by simp

lemma serializeArg_fragment_text:
  "spec_classify a = MessageFragment \<Longrightarrow> serializeArg a = Inr r \<Longrightarrow>
   \<exists>t. spec_fragmentText a = Inr t"
  by (cases a) (auto simp: serializeArg_def spec_fragmentText_def JSON_stringify_def
      spec_classify_def split: sum.splits option.splits if_splits)

lemma serializeArgs_fragments:
  "list_all (\<lambda>a. spec_classify a = MessageFragment) frags \<Longrightarrow>
   (case mapE serializeArg frags of Inl ex \<Rightarrow> Inl ex | Inr rs \<Rightarrow> joinTexts rs)
   = mapE spec_fragmentText frags"
proof (induction frags)
  case Nil
  show ?case by simp
next
  case (Cons a frags)
  then have a: "spec_classify a = MessageFragment"
    and IH: "(case mapE serializeArg frags of Inl ex \<Rightarrow> Inl ex | Inr rs \<Rightarrow> joinTexts rs)
             = mapE spec_fragmentText frags"
    by simp_all
  show ?case
  proof (cases "serializeArg a")
    case (Inl ex)
    with serializeArg_fragment_Inl [OF a Inl] show ?thesis by simp
  next
    case (Inr r)
    from serializeArg_fragment_text [OF a Inr] obtain t where t: "spec_fragmentText a = Inr t"
      by blast
    with serializeArg_fragment_Inr [OF a Inr]
    have r: "(if r = JUndefined \<or> r = JNull then Inr [] else ToString r) = Inr t"
      by simp
    show ?thesis
    proof (cases "mapE serializeArg frags")
      case (Inl ex)
      with IH have "mapE spec_fragmentText frags = Inl ex" by simp
      with Inl \<open>serializeArg a = Inr r\<close> t show ?thesis by simp
    next
      case (Inr rs)
      with IH have "mapE spec_fragmentText frags = joinTexts rs" by simp
      with Inr \<open>serializeArg a = Inr r\<close> t r show ?thesis
        by (cases "joinTexts rs") (simp_all del: ToString.simps)
    qed
  qed
qed

lemma serializeArgs_spec_message:
  "list_all (\<lambda>a. spec_classify a = MessageFragment) frags \<Longrightarrow>
   serializeArgs frags = spec_message frags"
  using serializeArgs_fragments [of frags]
  by (cases "mapE serializeArg frags")
     (auto simp: serializeArgs_def spec_message_def arrayJoin_def split: sum.splits)

lemma messageArgsOf_fragments:
  "list_all (\<lambda>a. spec_classify a = MessageFragment) (messageArgsOf args)"
  unfolding messageArgsOf_def list_all_iff
  by (simp only: messageArg_classify) simp

lemma buildEntry_example_context:
  "buildEntry ''info''
     [JObj False [(''level'', JStr ''custom''), (''message'', JStr ''ctx'')] [], JStr ''hello'']
     \<lparr>year = 2023, month = 10, day = 2, hours = 12, minutes = 0, seconds = 0, milliseconds = 0\<rparr>
   = Inr [(''timestamp'', JStr ''2023-10-02T12:00:00.000Z''), (''level'', JStr ''custom''),
          (''message'', JStr ''hello'')]"
  by (simp add: logger_defs)

lemma serializeArgs_example_context:
  "serializeArgs (messageArgsOf
     [JObj False [(''level'', JStr ''custom''), (''message'', JStr ''ctx'')] [], JStr ''hello''])
   = Inr ''hello''"
  by (simp add: logger_defs)

lemma buildEntry_example_no_fragments:
  "buildEntry ''info''
     [JObj False [(''level'', JStr ''custom''), (''message'', JStr ''ctx'')] []]
     \<lparr>year = 2023, month = 10, day = 2, hours = 12, minutes = 0, seconds = 0, milliseconds = 0\<rparr>
   = Inr [(''timestamp'', JStr ''2023-10-02T12:00:00.000Z''), (''level'', JStr ''custom''),
          (''message'', JStr ''ctx'')]"
  by (simp add: logger_defs)

lemma serializeArgs_example_no_fragments:
  "serializeArgs (messageArgsOf
     [JObj False [(''level'', JStr ''custom''), (''message'', JStr ''ctx'')] []])
   = Inr []"
  by (simp add: logger_defs)

subsection \<open>The timestamp and the serialized entry\<close>










section \<open>The claims\<close>

text \<open>
  \<^bold>\<open>C7.\<close> \<^verbatim>\<open>setLogLevel\<close> with a string that is not one of the five level names throws an
  \<^verbatim>\<open>Error\<close> whose message is \<^verbatim>\<open>Invalid log level: \<close> followed by the string, and leaves the
  logger as it was, so that every later call is gated as before; with a level name it
  throws nothing and the threshold becomes that level.
\<close>

theorem setLogLevel_outcome:
  "setLogLevel this level =
     (if level \<in> set LogLevels then (None, this\<lparr>logLevel := level\<rparr>)
      else (Some (JSError (''Invalid log level: '' @ level)), this))
   \<and> (level \<notin> set LogLevels \<longrightarrow>
        logAt (logLevel (snd (setLogLevel this level))) L args now console =
        logAt (logLevel this) L args now console)"
  using LEVELS_keys [of level] by (auto simp: setLogLevel_def isLogLevel_def)

theorem setLogLevel_outcome_witness:
  "setLogLevel \<lparr>logLevel = ''info''\<rparr> ''invalid'' =
     (Some (JSError ''Invalid log level: invalid''), \<lparr>logLevel = ''info''\<rparr>)
   \<and> setLogLevel \<lparr>logLevel = ''info''\<rparr> ''trace'' = (None, \<lparr>logLevel = ''trace''\<rparr>)"
  using setLogLevel_outcome [of "\<lparr>logLevel = ''info''\<rparr>" "''invalid''"]
    setLogLevel_outcome [of "\<lparr>logLevel = ''info''\<rparr>" "''trace''"]
  by (simp add: LogLevels_def)

text \<open>
  \<^bold>\<open>C8.\<close> The constructor sets the threshold to its argument when that is one of the five
  level names, and to \<^verbatim>\<open>warn\<close> for any other string (the empty one included) and for no
  argument. It has no \<^verbatim>\<open>throw\<close> and calls nothing that throws on a string: it is a total
  function to loggers.
\<close>

theorem constructor_threshold:
  "logLevel (constructor initialLogLevel) =
     (case initialLogLevel of
        None \<Rightarrow> ''warn''
      | Some s \<Rightarrow> if s \<in> set LogLevels then s else ''warn'')"
proof (cases initialLogLevel)
  case None
  then show ?thesis by (simp add: constructor_def)
next
  case (Some s)
  have "s \<in> set LogLevels \<Longrightarrow> s \<noteq> []"
    by (auto simp: LogLevels_def)
  with Some LEVELS_keys [of s] show ?thesis
    by (auto simp: constructor_def isLogLevel_def)
qed

theorem constructor_threshold_witness:
  "logLevel (constructor (Some ''debug'')) = ''debug''
   \<and> logLevel (constructor (Some ''verbose'')) = ''warn''
   \<and> logLevel (constructor (Some [])) = ''warn''
   \<and> logLevel (constructor None) = ''warn''"
  using constructor_threshold [of "Some ''debug''"] constructor_threshold [of "Some ''verbose''"]
    constructor_threshold [of "Some []"] constructor_threshold [of None]
  by (simp add: LogLevels_def)





text \<open>
  \<^bold>\<open>C2.\<close> The three filters of \<^verbatim>\<open>logAt\<close> select, in the order of the arguments, exactly the
  error-like values, the context objects and the message fragments of the specification's
  classification. Every argument has one class, so the three lists partition the
  arguments (their multisets add up to the arguments'), each is a subsequence of the
  arguments, and no value is in two of them: an error-like object is never a context
  object.
\<close>

theorem classification_partition:
  "errorArgsOf args = filter (\<lambda>a. spec_classify a = ErrorLike) args
   \<and> objectArgsOf args = filter (\<lambda>a. spec_classify a = ContextObject) args
   \<and> messageArgsOf args = filter (\<lambda>a. spec_classify a = MessageFragment) args
   \<and> mset (errorArgsOf args) + mset (objectArgsOf args) + mset (messageArgsOf args) = mset args
   \<and> subseq (errorArgsOf args) args
   \<and> subseq (objectArgsOf args) args
   \<and> subseq (messageArgsOf args) args
   \<and> set (errorArgsOf args) \<inter> set (objectArgsOf args) = {}
   \<and> set (errorArgsOf args) \<inter> set (messageArgsOf args) = {}
   \<and> set (objectArgsOf args) \<inter> set (messageArgsOf args) = {}"
proof -
  have e: "errorArgsOf args = filter (\<lambda>a. spec_classify a = ErrorLike) args"
    unfolding errorArgsOf_def by (rule filter_cong) (simp_all add: isError_classify)
  have c: "objectArgsOf args = filter (\<lambda>a. spec_classify a = ContextObject) args"
    unfolding objectArgsOf_def by (rule filter_cong) (simp_all only: objectArg_classify)
  have m: "messageArgsOf args = filter (\<lambda>a. spec_classify a = MessageFragment) args"
    unfolding messageArgsOf_def by (rule filter_cong) (simp_all only: messageArg_classify)
  have p: "mset (errorArgsOf args) + mset (objectArgsOf args) + mset (messageArgsOf args)
           = mset args"
    unfolding e c m by (rule mset_three_filters)
  have d: "set (errorArgsOf args) \<inter> set (objectArgsOf args) = {}"
    "set (errorArgsOf args) \<inter> set (messageArgsOf args) = {}"
    "set (objectArgsOf args) \<inter> set (messageArgsOf args) = {}"
    unfolding e c m by auto
  show ?thesis
    using e c m p d by simp
qed

theorem classification_partition_witness:
  "errorArgsOf [JStr ''mixed args'', JObj False [(''userId'', JNum 123)] [], JNull,
                JObj True [] [(''message'', JStr ''Minor issue''), (''name'', JStr ''Error'')],
                JArr [JNum 1], JObj False [(''name'', JStr ''E''), (''message'', JNum 5)] [], JNum 456]
     = [JObj True [] [(''message'', JStr ''Minor issue''), (''name'', JStr ''Error'')],
        JObj False [(''name'', JStr ''E''), (''message'', JNum 5)] []]
   \<and> objectArgsOf [JStr ''mixed args'', JObj False [(''userId'', JNum 123)] [], JNull,
                JObj True [] [(''message'', JStr ''Minor issue''), (''name'', JStr ''Error'')],
                JArr [JNum 1], JObj False [(''name'', JStr ''E''), (''message'', JNum 5)] [], JNum 456]
     = [JObj False [(''userId'', JNum 123)] [], JArr [JNum 1]]
   \<and> messageArgsOf [JStr ''mixed args'', JObj False [(''userId'', JNum 123)] [], JNull,
                JObj True [] [(''message'', JStr ''Minor issue''), (''name'', JStr ''Error'')],
                JArr [JNum 1], JObj False [(''name'', JStr ''E''), (''message'', JNum 5)] [], JNum 456]
     = [JStr ''mixed args'', JNull, JNum 456]"
  using classification_partition [of "[JStr ''mixed args'', JObj False [(''userId'', JNum 123)] [], JNull,
                JObj True [] [(''message'', JStr ''Minor issue''), (''name'', JStr ''Error'')],
                JArr [JNum 1], JObj False [(''name'', JStr ''E''), (''message'', JNum 5)] [], JNum 456]"]
  by (simp add: spec_classify_def hasProp_def natToString.simps digitChar_def)



text \<open>
  \<^bold>\<open>C5.\<close> On a list of message fragments, \<^verbatim>\<open>serializeArgs\<close> is the specification's rendering:
  strings unchanged, \<^verbatim>\<open>undefined\<close> as the text \<^verbatim>\<open>undefined\<close>, everything else JSON-encoded, the
  texts joined by one space (and it raises exactly when an encoding does). In a call that
  builds its entry, the message step assigns \<^verbatim>\<open>message\<close> if and only if that text is not
  empty: then the field is the text, otherwise the field is as the merge of the context
  objects left it.
\<close>

theorem message_rendering:
  "(list_all (\<lambda>a. spec_classify a = MessageFragment) frags \<longrightarrow>
      serializeArgs frags = spec_message frags)
   \<and> (buildEntry level args now = Inr entry \<longrightarrow>
        (\<exists>msg. spec_message (messageArgsOf args) = Inr msg
           \<and> map_of entry ''message'' =
               (if msg \<noteq> [] then Some (JStr msg)
                else map_of (mergeObjects (baseEntry level now) (objectArgsOf args)) ''message'')))"
proof (intro conjI impI)
  assume "list_all (\<lambda>a. spec_classify a = MessageFragment) frags"
  then show "serializeArgs frags = spec_message frags"
    by (rule serializeArgs_spec_message)
next
  assume "buildEntry level args now = Inr entry"
  from buildEntry_returns [OF this] obtain msg ms where
    msg: "serializeArgs (messageArgsOf args) = Inr msg"
    and entry: "map_of entry = map_of (baseEntry level now) ++ contextFields (objectArgsOf args)
                  ++ messageField msg ++ errorFields ms"
    by blast
  have "spec_message (messageArgsOf args) = Inr msg"
    using serializeArgs_spec_message [OF messageArgsOf_fragments, of args] msg by simp
  moreover have "map_of entry ''message'' =
      (if msg \<noteq> [] then Some (JStr msg)
       else map_of (mergeObjects (baseEntry level now) (objectArgsOf args)) ''message'')"
    unfolding entry map_of_mergeObjects
    by (auto simp: map_add_def messageField_def errorFields_def split: list.splits option.splits)
  ultimately show "\<exists>msg. spec_message (messageArgsOf args) = Inr msg
           \<and> map_of entry ''message'' =
               (if msg \<noteq> [] then Some (JStr msg)
                else map_of (mergeObjects (baseEntry level now) (objectArgsOf args)) ''message'')"
    by blast
qed

theorem message_rendering_witness:
  "serializeArgs [JStr ''test'', JNull, JUndefined, JFunction ''f'', JBool True, JNum (- 12)]
     = Inr ''test null undefined  true -12''
   \<and> spec_message (messageArgsOf
         [JStr ''x'', JObj False [(''a'', JNum 1), (''b'', JNum 2)] [], JNum 7,
          JObj False [(''b'', JNum 3)] []]) = Inr ''x 7''"
proof -
  have "serializeArgs [JStr ''test'', JNull, JUndefined, JFunction ''f'', JBool True, JNum (- 12)]
        = spec_message [JStr ''test'', JNull, JUndefined, JFunction ''f'', JBool True, JNum (- 12)]"
    using message_rendering
      [of "[JStr ''test'', JNull, JUndefined, JFunction ''f'', JBool True, JNum (- 12)]"]
    by (simp add: spec_classify_def)
  moreover have "spec_message [JStr ''test'', JNull, JUndefined, JFunction ''f'', JBool True, JNum (- 12)]
        = Inr ''test null undefined  true -12''"
    by (simp add: spec_message_def spec_fragmentText_def logger_defs)
  moreover have "spec_message (messageArgsOf
         [JStr ''x'', JObj False [(''a'', JNum 1), (''b'', JNum 2)] [], JNum 7,
          JObj False [(''b'', JNum 3)] []]) = Inr ''x 7''"
    using message_rendering [THEN conjunct2, rule_format, OF buildEntry_example]
    by (auto simp: logger_defs split: if_splits)
  ultimately show ?thesis by simp
qed

text \<open>
  \<^bold>\<open>C10.\<close> In a call that builds its entry, \<^verbatim>\<open>timestamp\<close> and \<^verbatim>\<open>level\<close> are written before the
  merge: where a context object owns the key, the entry holds the value of the last such
  object, and the base value otherwise. \<^verbatim>\<open>message\<close> is assigned after the merge: when the
  rendered fragments are not empty the entry holds that text, whatever a context object
  supplied; a context object's \<^verbatim>\<open>message\<close> stands only when the rendered text is empty, as
  it is when there are no fragments.
\<close>

theorem base_fields_then_merge_then_message:
  assumes "buildEntry level args now = Inr entry"
    and "serializeArgs (messageArgsOf args) = Inr msg"
  shows "map_of entry ''timestamp'' =
           (case contextFields (objectArgsOf args) ''timestamp'' of
              Some v \<Rightarrow> Some v
            | None \<Rightarrow> Some (JStr (toISOString now)))
       \<and> map_of entry ''level'' =
           (case contextFields (objectArgsOf args) ''level'' of
              Some v \<Rightarrow> Some v
            | None \<Rightarrow> Some (JStr level))
       \<and> map_of entry ''message'' =
           (if msg \<noteq> [] then Some (JStr msg)
            else contextFields (objectArgsOf args) ''message'')
       \<and> (messageArgsOf args = [] \<longrightarrow> msg = [])"
proof -
  from buildEntry_returns [OF assms(1)] assms(2) obtain ms where
    entry: "map_of entry = map_of (baseEntry level now) ++ contextFields (objectArgsOf args)
                  ++ messageField msg ++ errorFields ms"
    by auto
  have "messageArgsOf args = [] \<longrightarrow> msg = []"
    using assms(2) by (auto simp: serializeArgs_Nil)
  then show ?thesis
    unfolding entry
    by (auto simp: map_add_def messageField_def errorFields_def baseEntry_def
        split: list.splits option.splits)
qed

theorem base_fields_then_merge_then_message_witness:
  "contextFields (objectArgsOf
      [JObj False [(''level'', JStr ''custom''), (''message'', JStr ''ctx'')] [], JStr ''hello''])
      ''message'' = Some (JStr ''ctx'')
   \<and> buildEntry ''info''
      [JObj False [(''level'', JStr ''custom''), (''message'', JStr ''ctx'')] [], JStr ''hello'']
      \<lparr>year = 2023, month = 10, day = 2, hours = 12, minutes = 0, seconds = 0, milliseconds = 0\<rparr>
     = Inr [(''timestamp'', JStr ''2023-10-02T12:00:00.000Z''), (''level'', JStr ''custom''),
            (''message'', JStr ''hello'')]
   \<and> contextFields (objectArgsOf
      [JObj False [(''level'', JStr ''custom''), (''message'', JStr ''ctx'')] []])
      ''message'' = Some (JStr ''ctx'')
   \<and> contextFields (objectArgsOf
      [JObj False [(''level'', JStr ''custom''), (''message'', JStr ''ctx'')] []])
      ''timestamp'' = None"
  using base_fields_then_merge_then_message
      [OF buildEntry_example_context serializeArgs_example_context]
    base_fields_then_merge_then_message
      [OF buildEntry_example_no_fragments serializeArgs_example_no_fragments]
    buildEntry_example_context
  by (simp add: contextFields_def logger_defs split: option.splits)




end
